theory Spec2Isabelle
  imports Main "HOL-Library.Sublist"
begin

section \<open>Timer engine (\<open>src/public/timer.js\<close>, class \<open>RaceTimer\<close>)\<close>

text \<open>
  The fields of the class, without the DOM element it paints into. \<open>null\<close> is \<open>None\<close>.
  \<open>timerInterval\<close> holds the handle \<open>setInterval\<close> returned; \<open>clearInterval\<close> cancels
  the platform's timer and leaves the field as it is.
\<close>

record RaceTimer =
  startTime :: "int option"
  timerInterval :: "nat option"
  isRunning :: bool

definition RaceTimer_new :: RaceTimer where
  "RaceTimer_new = \<lparr>startTime = None, timerInterval = None, isRunning = False\<rparr>"

text \<open>
  JavaScript truthiness of a number that may be \<open>null\<close>, \<open>undefined\<close> or \<open>NaN\<close>
  (all three are \<open>None\<close> here): the number \<open>0\<close> is falsy as well.
\<close>

fun truthy :: "int option \<Rightarrow> bool" where
  "truthy None = False"
| "truthy (Some n) = (n \<noteq> 0)"

text \<open>
  \<open>start(startTime = null)\<close>. The wall clock \<open>Date.now()\<close> and the handle that
  \<open>setInterval\<close> gives are inputs; the result is the returned value and the timer after
  the call.
\<close>

definition start :: "RaceTimer \<Rightarrow> int option \<Rightarrow> int \<Rightarrow> nat \<Rightarrow> int option \<times> RaceTimer" where
  "start t arg now handle =
     (if isRunning t then (startTime t, t)
      else
        let s = (if truthy arg then arg else Some now);
            t' = t\<lparr>startTime := s, isRunning := True, timerInterval := Some handle\<rparr>
        in (startTime t', t'))"

definition stop :: "RaceTimer \<Rightarrow> RaceTimer" where
  "stop t = (if \<not> isRunning t then t else t\<lparr>isRunning := False\<rparr>)"

definition reset :: "RaceTimer \<Rightarrow> RaceTimer" where
  "reset t = (stop t)\<lparr>startTime := None\<rparr>"

definition getElapsedTime :: "RaceTimer \<Rightarrow> int \<Rightarrow> int" where
  "getElapsedTime t now = (if \<not> truthy (startTime t) then 0 else now - the (startTime t))"

definition recordFinish :: "RaceTimer \<Rightarrow> int \<Rightarrow> int option" where
  "recordFinish t now = (if \<not> isRunning t then None else Some now)"


section \<open>Local result queue and sync coordinator (\<open>src/public/timer.js\<close>, class \<open>OfflineStorage\<close>)\<close>

text \<open>
  A queued result is the object \<open>recordFinish\<close> of the application hands to
  \<open>storeResult\<close>: \<open>{raceId, runnerNumber, finishTime}\<close>. The blob kept in
  \<open>localStorage\<close> under \<open>'race-control-data'\<close> is \<open>{raceId, results}\<close>; it goes through
  \<open>JSON.stringify\<close> and \<open>JSON.parse\<close>, which give back the same value, so the stored
  value is kept as it is, \<open>None\<close> when the key is absent. Race ids are primitive values
  compared with \<open>!==\<close>. Field names carry a prefix where two objects of the source
  share a name.
\<close>

record result =
  raceId :: int
  runnerNumber :: int
  finishTime :: int

record raceData =
  data_raceId :: int
  data_results :: "result list"

record OfflineStorage =
  stored :: "raceData option"
  deviceId :: string
  isOnline :: bool

definition getStoredData :: "OfflineStorage \<Rightarrow> raceData option" where
  "getStoredData st = stored st"

text \<open>
  \<open>checkUnsyncedData\<close> shows or hides a badge and returns whether results are queued;
  only the returned value is kept.
\<close>

definition checkUnsyncedData :: "OfflineStorage \<Rightarrow> bool" where
  "checkUnsyncedData st =
     (case getStoredData st of None \<Rightarrow> False | Some d \<Rightarrow> data_results d \<noteq> [])"

definition storeRaceData :: "OfflineStorage \<Rightarrow> raceData \<Rightarrow> OfflineStorage" where
  "storeRaceData st d = st\<lparr>stored := Some d\<rparr>"

definition storeResult :: "OfflineStorage \<Rightarrow> result \<Rightarrow> OfflineStorage" where
  "storeResult st r =
     (let fresh = \<lparr>data_raceId = raceId r, data_results = []\<rparr>;
          d0 = (case getStoredData st of None \<Rightarrow> fresh | Some d \<Rightarrow> d);
          d1 = (if data_raceId d0 \<noteq> raceId r then fresh else d0)
      in storeRaceData st (d1\<lparr>data_results := data_results d1 @ [r]\<rparr>))"

definition clearResults :: "OfflineStorage \<Rightarrow> OfflineStorage" where
  "clearResults st = st\<lparr>stored := None\<rparr>"

definition isDeviceOnline :: "OfflineStorage \<Rightarrow> bool" where
  "isDeviceOnline st = isOnline st"

definition handleConnectionChange :: "OfflineStorage \<Rightarrow> bool \<Rightarrow> OfflineStorage" where
  "handleConnectionChange st b = st\<lparr>isOnline := b\<rparr>"

text \<open>
  \<open>syncResults\<close> is an \<open>async\<close> function with one \<open>await\<close>. It runs in two pieces,
  each without interruption: \<open>syncResults_issue\<close> runs from the call to the \<open>fetch\<close>,
  and either returns at once (the value returned and the notification shown) or leaves
  a request in flight; \<open>syncResults_resume\<close> runs when the \<open>fetch\<close> settles, with a
  rejection or with a response of some status. The request is
  \<open>POST /api/races/${data.raceId}/results\<close> with body \<open>{results, deviceId}\<close>.
\<close>

record upload =
  up_raceId :: int
  up_results :: "result list"
  up_deviceId :: string

datatype sync_step = Returned bool string | InFlight upload

datatype fetch_result = Rejected | Response nat

definition response_ok :: "nat \<Rightarrow> bool" where
  "response_ok code = (200 \<le> code \<and> code \<le> 299)"

definition syncResults_issue :: "OfflineStorage \<Rightarrow> sync_step" where
  "syncResults_issue st =
     (if \<not> isOnline st then Returned False ''Cannot sync while offline''
      else case getStoredData st of
        None \<Rightarrow> Returned False ''No data to synchronize''
      | Some d \<Rightarrow>
          if data_results d = [] then Returned False ''No data to synchronize''
          else InFlight \<lparr>up_raceId = data_raceId d, up_results = data_results d,
                         up_deviceId = deviceId st\<rparr>)"

definition syncResults_resume :: "OfflineStorage \<Rightarrow> fetch_result \<Rightarrow> (bool \<times> string) \<times> OfflineStorage" where
  "syncResults_resume st fr =
     (case fr of
        Rejected \<Rightarrow> ((False, ''Failed to synchronize results''), st)
      | Response code \<Rightarrow>
          if \<not> response_ok code then ((False, ''Failed to synchronize results''), st)
          else ((True, ''Results synchronized successfully''), clearResults st))"


text \<open>
  The page as the event loop sees it: the storage object and the uploads whose
  \<open>fetch\<close> has not settled yet. A call of \<open>syncResults\<close> runs its first piece; what
  it returns at once is the second component.
\<close>

record page =
  storage :: OfflineStorage
  in_flight :: "upload list"

definition call_syncResults :: "page \<Rightarrow> page \<times> (bool \<times> string) option" where
  "call_syncResults p =
     (case syncResults_issue (storage p) of
        Returned b msg \<Rightarrow> (p, Some (b, msg))
      | InFlight u \<Rightarrow> (p\<lparr>in_flight := in_flight p @ [u]\<rparr>, None))"


section \<open>Asset cache manager (\<open>src/public/sw.js\<close>)\<close>

definition CACHE_NAME :: string where
  "CACHE_NAME = ''race-control-v1''"

text \<open>A request with its \<open>url\<close> and its \<open>method\<close>, and a response.\<close>

record request =
  url :: string
  http_method :: string

record response =
  status :: nat
  resp_type :: string
  headers :: "(string \<times> string) list"
  body :: string

text \<open>
  \<open>JSON.stringify\<close> on an object whose values are strings and booleans, for keys and
  strings that need no escape.
\<close>

datatype jval = JString string | JBool bool

fun jval_text :: "jval \<Rightarrow> string" where
  "jval_text (JString s) = CHR 0x22 # s @ [CHR 0x22]"
| "jval_text (JBool b) = (if b then ''true'' else ''false'')"

fun members_text :: "(string \<times> jval) list \<Rightarrow> string" where
  "members_text [] = []"
| "members_text [(k, v)] = CHR 0x22 # k @ [CHR 0x22] @ '':'' @ jval_text v"
| "members_text ((k, v) # rest) =
     CHR 0x22 # k @ [CHR 0x22] @ '':'' @ jval_text v @ '','' @ members_text rest"

definition JSON_stringify :: "(string \<times> jval) list \<Rightarrow> string" where
  "JSON_stringify obj = ''{'' @ members_text obj @ ''}''"

text \<open>
  The platform's cache storage: caches by name in the order of their creation, each a
  list of entries keyed by the request's URL. \<open>caches.match\<close> answers from the first
  cache that has an entry; a cache matches and stores \<open>GET\<close> requests only.
\<close>

type_synonym cache = "(string \<times> response) list"
type_synonym cache_storage = "(string \<times> cache) list"

definition cache_match :: "cache \<Rightarrow> request \<Rightarrow> response option" where
  "cache_match c req = (if http_method req = ''GET'' then map_of c (url req) else None)"

fun caches_match :: "cache_storage \<Rightarrow> request \<Rightarrow> response option" where
  "caches_match [] req = None"
| "caches_match ((n, c) # cs) req =
     (case cache_match c req of Some r \<Rightarrow> Some r | None \<Rightarrow> caches_match cs req)"

definition caches_keys :: "cache_storage \<Rightarrow> string list" where
  "caches_keys cs = map fst cs"

definition caches_delete :: "string \<Rightarrow> cache_storage \<Rightarrow> cache_storage" where
  "caches_delete n cs = filter (\<lambda>(m, c). m \<noteq> n) cs"

definition caches_open :: "string \<Rightarrow> cache_storage \<Rightarrow> cache_storage" where
  "caches_open n cs = (if n \<in> set (caches_keys cs) then cs else cs @ [(n, [])])"

definition cache_put :: "cache \<Rightarrow> request \<Rightarrow> response \<Rightarrow> cache" where
  "cache_put c req resp =
     (if http_method req = ''GET'' then filter (\<lambda>(u, r). u \<noteq> url req) c @ [(url req, resp)] else c)"

definition caches_put :: "string \<Rightarrow> request \<Rightarrow> response \<Rightarrow> cache_storage \<Rightarrow> cache_storage" where
  "caches_put n req resp cs =
     map (\<lambda>(m, c). if m = n then (m, cache_put c req resp) else (m, c)) (caches_open n cs)"

text \<open>
  The \<open>activate\<close> handler: the names other than \<open>CACHE_NAME\<close> are taken from
  \<open>caches.keys()\<close> and each is deleted.
\<close>

definition activate :: "cache_storage \<Rightarrow> cache_storage" where
  "activate cs =
     foldl (\<lambda>acc n. caches_delete n acc) cs (filter (\<lambda>n. n \<noteq> CACHE_NAME) (caches_keys cs))"

definition startsWith :: "string \<Rightarrow> string \<Rightarrow> bool" where
  "startsWith s p = prefix p s"

definition includes_sub :: "string \<Rightarrow> string \<Rightarrow> bool" where
  "includes_sub s p = sublist p s"

definition offline_response :: response where
  "offline_response =
     \<lparr>status = 503, resp_type = ''default'',
      headers = [(''Content-Type'', ''application/json'')],
      body = JSON_stringify
               [(''error'', JString ''You are currently offline''), (''offline'', JBool True)]\<rparr>"

text \<open>
  The \<open>fetch\<close> handler. \<open>origin\<close> is \<open>self.location.origin\<close>; \<open>net\<close> is the network,
  \<open>None\<close> where \<open>fetch\<close> rejects. The handler either returns without
  \<open>respondWith\<close>, or answers with a response or with \<open>undefined\<close> (what
  \<open>caches.match\<close> resolves to when nothing matches), or hands on the rejection of the
  network.
\<close>

datatype outcome = NotIntercepted | Respond "response option" | NetworkFailure

definition fetch_handler ::
  "string \<Rightarrow> (request \<Rightarrow> response option) \<Rightarrow> cache_storage \<Rightarrow> request \<Rightarrow> outcome \<times> cache_storage" where
  "fetch_handler origin net cs req =
     (if \<not> startsWith (url req) origin then (NotIntercepted, cs)
      else if includes_sub (url req) ''/api/'' then
        (case net req of
           Some resp \<Rightarrow> (Respond (Some resp), cs)
         | None \<Rightarrow>
             if http_method req = ''GET'' then (Respond (caches_match cs req), cs)
             else (Respond (Some offline_response), cs))
      else
        (case caches_match cs req of
           Some resp \<Rightarrow> (Respond (Some resp), cs)
         | None \<Rightarrow>
             (case net req of
                None \<Rightarrow> (NetworkFailure, cs)
              | Some fetchResponse \<Rightarrow>
                  if status fetchResponse \<noteq> 200 \<or> resp_type fetchResponse \<noteq> ''basic''
                  then (Respond (Some fetchResponse), cs)
                  else (Respond (Some fetchResponse),
                        caches_put CACHE_NAME req fetchResponse cs))))"


section \<open>Remote store (\<open>src/server.js\<close> and the schema of the database set-up script)\<close>

text \<open>
  The two tables, with the columns of the schema under the table's name. \<open>status\<close> is
  a text column that the server only ever writes as \<open>'pending'\<close>, \<open>'active'\<close> or
  \<open>'completed'\<close>. An id of a path (\<open>req.params.id\<close>) is the integer that the
  column's INTEGER affinity makes of its text. The schema declares a foreign key from
  \<open>results.raceId\<close> to \<open>races.id\<close>; SQLite enforces foreign keys on a connection
  only after \<open>PRAGMA foreign_keys = ON\<close>, which the server never issues, so an
  insertion into \<open>results\<close> does not look at \<open>races\<close>. \<open>races_seq\<close> and
  \<open>results_seq\<close> are the last ids that AUTOINCREMENT gave.
\<close>

datatype race_status = Pending | Active | Completed

record races_row =
  races_id :: int
  races_name :: string
  races_date :: string
  races_startTime :: "int option"
  races_status :: race_status

record results_row =
  results_id :: int
  results_raceId :: int
  results_runnerNumber :: int
  results_finishTime :: int
  results_uploadedBy :: "string option"
  results_uploadedAt :: int

record tables =
  races :: "races_row list"
  results :: "results_row list"
  races_seq :: int
  results_seq :: int

text \<open>
  The server keeps one connection. \<open>cur\<close> is what a statement on the connection
  reads and writes; \<open>saved\<close> is the content at \<open>BEGIN TRANSACTION\<close> while a
  transaction is open, to which \<open>ROLLBACK\<close> returns. Every handler reads through this
  connection, so what a reader observes is \<open>cur\<close>. A statement gives back its error
  message, if any. Failures of the storage medium are not part of the model: the only
  statements that fail are \<open>BEGIN\<close> inside a transaction and \<open>COMMIT\<close> or
  \<open>ROLLBACK\<close> outside of one, none of which changes anything.
\<close>

record database =
  cur :: tables
  saved :: "tables option"

definition sql_begin :: "database \<Rightarrow> string option \<times> database" where
  "sql_begin db =
     (case saved db of
        None \<Rightarrow> (None, db\<lparr>saved := Some (cur db)\<rparr>)
      | Some _ \<Rightarrow> (Some ''cannot start a transaction within a transaction'', db))"

definition sql_commit :: "database \<Rightarrow> string option \<times> database" where
  "sql_commit db =
     (case saved db of
        None \<Rightarrow> (Some ''cannot commit - no transaction is active'', db)
      | Some _ \<Rightarrow> (None, db\<lparr>saved := None\<rparr>))"

definition sql_rollback :: "database \<Rightarrow> string option \<times> database" where
  "sql_rollback db =
     (case saved db of
        None \<Rightarrow> (Some ''cannot rollback - no transaction is active'', db)
      | Some t \<Rightarrow> (None, \<lparr>cur = t, saved = None\<rparr>))"

text \<open>\<open>UPDATE races SET ... WHERE id = ?\<close>, with the number of rows changed.\<close>

definition sql_update_races :: "(races_row \<Rightarrow> races_row) \<Rightarrow> int \<Rightarrow> database \<Rightarrow> nat \<times> database" where
  "sql_update_races f i db =
     (length (filter (\<lambda>r. races_id r = i) (races (cur db))),
      db\<lparr>cur := (cur db)\<lparr>races := map (\<lambda>r. if races_id r = i then f r else r) (races (cur db))\<rparr>\<rparr>)"

definition sql_insert_race :: "string \<Rightarrow> string \<Rightarrow> race_status \<Rightarrow> database \<Rightarrow> int \<times> database" where
  "sql_insert_race n d s db =
     (let t = cur db; i = races_seq t + 1;
          row = \<lparr>races_id = i, races_name = n, races_date = d, races_startTime = None,
                 races_status = s\<rparr>
      in (i, db\<lparr>cur := t\<lparr>races := races t @ [row], races_seq := i\<rparr>\<rparr>))"

definition sql_insert_result ::
  "int \<Rightarrow> int \<Rightarrow> int \<Rightarrow> string option \<Rightarrow> int \<Rightarrow> database \<Rightarrow> database" where
  "sql_insert_result rid rn ft dev at db =
     (let t = cur db; i = results_seq t + 1;
          row = \<lparr>results_id = i, results_raceId = rid, results_runnerNumber = rn,
                 results_finishTime = ft, results_uploadedBy = dev, results_uploadedAt = at\<rparr>
      in db\<lparr>cur := t\<lparr>results := results t @ [row], results_seq := i\<rparr>\<rparr>)"

text \<open>The rows that \<open>GET /api/races/:id/results\<close> sends, and the bodies of the replies.\<close>

record processedResult =
  out_id :: int
  out_runnerNumber :: int
  out_finishTime :: int
  out_raceTime :: "int option"
  out_uploadedBy :: "string option"
  out_uploadedAt :: int

datatype reply_body =
    Error string
  | Created int string string race_status
  | Started int int race_status
  | Ended int race_status
  | Saved nat
  | Rows "processedResult list"

datatype reply = Reply nat reply_body

fun truthy_text :: "string option \<Rightarrow> bool" where
  "truthy_text None = False"
| "truthy_text (Some s) = (s \<noteq> [])"

text \<open>\<open>POST /api/races\<close> with the body's \<open>name\<close> and \<open>date\<close>.\<close>

definition post_races :: "database \<Rightarrow> string option \<Rightarrow> string option \<Rightarrow> reply \<times> database" where
  "post_races db name date =
     (if \<not> truthy_text name \<or> \<not> truthy_text date
      then (Reply 400 (Error ''Name and date are required''), db)
      else case sql_insert_race (the name) (the date) Pending db of
        (lastID, db') \<Rightarrow> (Reply 200 (Created lastID (the name) (the date) Pending), db'))"

text \<open>\<open>PUT /api/races/:id/start\<close>; \<open>now\<close> is the server's \<open>Date.now()\<close>.\<close>

definition put_start :: "database \<Rightarrow> int \<Rightarrow> int \<Rightarrow> reply \<times> database" where
  "put_start db params_id now =
     (case sql_update_races (\<lambda>r. r\<lparr>races_startTime := Some now, races_status := Active\<rparr>) params_id db of
        (changes, db') \<Rightarrow>
          if changes = 0 then (Reply 404 (Error ''Race not found''), db')
          else (Reply 200 (Started params_id now Active), db'))"

text \<open>\<open>PUT /api/races/:id/end\<close>.\<close>

definition put_end :: "database \<Rightarrow> int \<Rightarrow> reply \<times> database" where
  "put_end db params_id =
     (case sql_update_races (\<lambda>r. r\<lparr>races_status := Completed\<rparr>) params_id db of
        (changes, db') \<Rightarrow>
          if changes = 0 then (Reply 404 (Error ''Race not found''), db')
          else (Reply 200 (Ended params_id Completed), db'))"

text \<open>
  \<open>POST /api/races/:id/results\<close>. The body's \<open>results\<close> is missing (or falsy), or
  something that is not an array, or an array of objects whose \<open>runnerNumber\<close> and
  \<open>finishTime\<close> are integers or absent; \<open>deviceId\<close> is a string or absent.

  The handler queues \<open>BEGIN TRANSACTION\<close> with no callback, so that it does not
  learn whether the statement failed, and then walks the array: \<open>insert_each\<close> is the
  \<open>forEach\<close>, whose first component is \<open>hasError\<close> after the walk. An entry that fails the check sets the flag
  and sends the 400; the entries after it are skipped; nothing else is queued on that
  path. Without the flag the handler queues \<open>COMMIT\<close> and answers from its callback.
  The queued statements run in the order of their queueing.
\<close>

record entry =
  entry_runnerNumber :: "int option"
  entry_finishTime :: "int option"

datatype results_field = Missing | NotArray | Array "entry list"

record results_body =
  body_results :: results_field
  body_deviceId :: "string option"

fun insert_each :: "int \<Rightarrow> string option \<Rightarrow> int \<Rightarrow> entry list \<Rightarrow> database \<Rightarrow> bool \<times> database" where
  "insert_each params_id dev uploadedAt [] db = (False, db)"
| "insert_each params_id dev uploadedAt (e # es) db =
     (if \<not> truthy (entry_runnerNumber e) \<or> \<not> truthy (entry_finishTime e) then (True, db)
      else insert_each params_id dev uploadedAt es
             (sql_insert_result params_id (the (entry_runnerNumber e)) (the (entry_finishTime e))
                dev uploadedAt db))"

definition post_results :: "database \<Rightarrow> int \<Rightarrow> results_body \<Rightarrow> int \<Rightarrow> reply \<times> database" where
  "post_results db params_id b now =
     (case body_results b of
        Missing \<Rightarrow> (Reply 400 (Error ''Results array is required''), db)
      | NotArray \<Rightarrow> (Reply 400 (Error ''Results array is required''), db)
      | Array es \<Rightarrow>
          (case insert_each params_id (body_deviceId b) now es (snd (sql_begin db)) of
             (hasError, db') \<Rightarrow>
               if hasError
               then (Reply 400 (Error ''Runner number and finish time are required for each result''), db')
               else (case sql_commit db' of
                       (Some msg, db'') \<Rightarrow> (Reply 500 (Error msg), db'')
                     | (None, db'') \<Rightarrow> (Reply 200 (Saved (length es)), db''))))"

text \<open>
  \<open>GET /api/races/:id/results\<close>: the rows of \<open>results\<close> for the race by ascending
  \<open>finishTime\<close> (rows of equal \<open>finishTime\<close> in the order of their insertion), each
  with the scalar subquery's \<open>raceStartTime\<close> (NULL when \<open>races\<close> has no such row).
\<close>

definition raceStartTime :: "database \<Rightarrow> int \<Rightarrow> int option" where
  "raceStartTime db params_id =
     (case filter (\<lambda>r. races_id r = params_id) (races (cur db)) of
        [] \<Rightarrow> None
      | r # _ \<Rightarrow> races_startTime r)"

definition processRow :: "int option \<Rightarrow> results_row \<Rightarrow> processedResult" where
  "processRow st row =
     \<lparr>out_id = results_id row, out_runnerNumber = results_runnerNumber row,
      out_finishTime = results_finishTime row,
      out_raceTime = (if truthy st then Some (results_finishTime row - the st) else None),
      out_uploadedBy = results_uploadedBy row, out_uploadedAt = results_uploadedAt row\<rparr>"

definition get_results_rows :: "database \<Rightarrow> int \<Rightarrow> processedResult list" where
  "get_results_rows db params_id =
     map (processRow (raceStartTime db params_id))
       (sort_key results_finishTime (filter (\<lambda>r. results_raceId r = params_id) (results (cur db))))"

definition get_results :: "database \<Rightarrow> int \<Rightarrow> reply" where
  "get_results db params_id = Reply 200 (Rows (get_results_rows db params_id))"


definition empty_db :: database where
  "empty_db = \<lparr>cur = \<lparr>races = [], results = [], races_seq = 0, results_seq = 0\<rparr>, saved = None\<rparr>"


section \<open>The device and the remote store together\<close>

text \<open>
  One call of \<open>syncResults\<close> from its start to its return, with nothing else running
  in between. The request of the upload reaches the server's handler or is lost, and
  the reply reaches the page or is lost. A lost request or reply is a rejected
  \<open>fetch\<close> to the page, or the 503 of the cache manager when that one controls the
  page (\<open>sw\<close>). The body of the request holds the queued results as they are and the
  device's id.
\<close>

record world =
  client :: OfflineStorage
  server :: database

datatype network = Delivered | Request_lost | Response_lost

definition upload_body :: "upload \<Rightarrow> results_body" where
  "upload_body u =
     \<lparr>body_results =
        Array (map (\<lambda>r. \<lparr>entry_runnerNumber = Some (runnerNumber r),
                          entry_finishTime = Some (finishTime r)\<rparr>) (up_results u)),
      body_deviceId = Some (up_deviceId u)\<rparr>"

fun reply_code :: "reply \<Rightarrow> nat" where
  "reply_code (Reply code b) = code"

definition seen_on_failure :: "bool \<Rightarrow> fetch_result" where
  "seen_on_failure sw = (if sw then Response (status offline_response) else Rejected)"

definition sync_round :: "world \<Rightarrow> network \<Rightarrow> bool \<Rightarrow> int \<Rightarrow> (bool \<times> string) \<times> world" where
  "sync_round w net sw now =
     (case syncResults_issue (client w) of
        Returned b msg \<Rightarrow> ((b, msg), w)
      | InFlight u \<Rightarrow>
          (case net of
             Request_lost \<Rightarrow>
               (case syncResults_resume (client w) (seen_on_failure sw) of
                  (r, c') \<Rightarrow> (r, w\<lparr>client := c'\<rparr>))
           | Delivered \<Rightarrow>
               (case post_results (server w) (up_raceId u) (upload_body u) now of
                  (rep, db') \<Rightarrow>
                    (case syncResults_resume (client w) (Response (reply_code rep)) of
                       (r, c') \<Rightarrow> (r, \<lparr>client = c', server = db'\<rparr>)))
           | Response_lost \<Rightarrow>
               (case post_results (server w) (up_raceId u) (upload_body u) now of
                  (rep, db') \<Rightarrow>
                    (case syncResults_resume (client w) (seen_on_failure sw) of
                       (r, c') \<Rightarrow> (r, \<lparr>client = c', server = db'\<rparr>)))))"

text \<open>What a stored row holds of the result that was sent.\<close>

definition sent :: "results_row \<Rightarrow> int \<times> int \<times> int \<times> string option" where
  "sent row =
     (results_raceId row, results_runnerNumber row, results_finishTime row, results_uploadedBy row)"


section \<open>The life cycle of a race under start and end requests\<close>

datatype lifecycle_request = Start int int | End int

fun handle :: "database \<Rightarrow> lifecycle_request \<Rightarrow> database" where
  "handle db (Start i now) = snd (put_start db i now)"
| "handle db (End i) = snd (put_end db i)"

fun run :: "database \<Rightarrow> lifecycle_request list \<Rightarrow> database" where
  "run db [] = db"
| "run db (q # qs) = run (handle db q) qs"

fun rank :: "race_status \<Rightarrow> nat" where
  "rank Pending = 0"
| "rank Active = 1"
| "rank Completed = 2"

text \<open>
  A start request is in order when the race it names is still pending; a sequence of
  requests is in order when each of its start requests is, in the state it meets.
\<close>

fun start_in_order :: "database \<Rightarrow> lifecycle_request \<Rightarrow> bool" where
  "start_in_order db (Start i now) =
     list_all (\<lambda>r. races_id r = i \<longrightarrow> races_status r = Pending) (races (cur db))"
| "start_in_order db (End i) = True"

fun in_order :: "database \<Rightarrow> lifecycle_request list \<Rightarrow> bool" where
  "in_order db [] = True"
| "in_order db (q # qs) = (start_in_order db q \<and> in_order (handle db q) qs)"

text \<open>
  A later row of a race against an earlier one: the same race, a status that is not
  behind, and a startTime that differs only if the earlier row was pending and the
  later one is not.
\<close>

definition advances :: "races_row \<Rightarrow> races_row \<Rightarrow> bool" where
  "advances r r' =
     (races_id r' = races_id r \<and> rank (races_status r) \<le> rank (races_status r') \<and>
      (races_startTime r' \<noteq> races_startTime r \<longrightarrow>
         races_status r = Pending \<and> races_status r' \<noteq> Pending))"


section \<open>Concrete states and requests\<close>

text \<open>
  The remote store after \<open>POST /api/races\<close> for the race "5K Fun Run"; a device that
  is online with two finishes of race 1 queued; a batch whose second entry has no
  \<open>runnerNumber\<close>; a batch of one entry.
\<close>

definition example_db :: database where
  "example_db = snd (post_races empty_db (Some ''5K Fun Run'') (Some ''2024-05-01''))"

definition example_storage :: OfflineStorage where
  "example_storage =
     \<lparr>stored = Some \<lparr>data_raceId = 1, data_results =
        [\<lparr>raceId = 1, runnerNumber = 101, finishTime = 126000\<rparr>,
         \<lparr>raceId = 1, runnerNumber = 102, finishTime = 99000\<rparr>]\<rparr>,
      deviceId = ''device_a'', isOnline = True\<rparr>"

definition partial_batch :: results_body where
  "partial_batch =
     \<lparr>body_results = Array [\<lparr>entry_runnerNumber = Some 101, entry_finishTime = Some 5000\<rparr>,
                            \<lparr>entry_runnerNumber = None, entry_finishTime = Some 6000\<rparr>],
      body_deviceId = Some ''device_a''\<rparr>"

definition single_batch :: results_body where
  "single_batch =
     \<lparr>body_results = Array [\<lparr>entry_runnerNumber = Some 101, entry_finishTime = Some 5000\<rparr>],
      body_deviceId = Some ''device_a''\<rparr>"

lemmas db_defs = example_db_def empty_db_def post_races_def sql_insert_race_def put_start_def
  put_end_def sql_update_races_def post_results_def sql_begin_def sql_commit_def
  sql_insert_result_def get_results_def get_results_rows_def raceStartTime_def processRow_def
  Let_def


section \<open>Properties of the timer engine\<close>

text \<open>
  C6. \<open>start()\<close> is idempotent: on a running timer, whatever the argument, the clock and
  the interval handle, it returns the existing startTime and leaves the timer as it
  was; so of two calls in a row, with no \<open>stop()\<close> or \<open>reset()\<close> between them, the second
  returns what the first returned and changes nothing.
\<close>

theorem start_idempotent:
  "(isRunning t \<longrightarrow> start t arg now h = (startTime t, t)) \<and>
   (case start t a1 n1 h1 of (s1, t1) \<Rightarrow>
      isRunning t1 \<and> start t1 a2 n2 h2 = (s1, t1))"
  by (simp add: start_def Let_def)

theorem start_idempotent_witness:
  "isRunning \<lparr>startTime = Some 1000, timerInterval = Some 1, isRunning = True\<rparr> \<and>
   start \<lparr>startTime = Some 1000, timerInterval = Some 1, isRunning = True\<rparr> (Some 5) 2000 2
     = (Some 1000, \<lparr>startTime = Some 1000, timerInterval = Some 1, isRunning = True\<rparr>) \<and>
   start (snd (start RaceTimer_new None 1000 1)) (Some 5) 2000 2
     = (Some 1000, \<lparr>startTime = Some 1000, timerInterval = Some 1, isRunning = True\<rparr>)"
  using start_idempotent [of "\<lparr>startTime = Some 1000, timerInterval = Some 1, isRunning = True\<rparr>"
      "Some 5" 2000 2 None 1000 1 "Some 5" 2000 2]
  by (simp add: start_def RaceTimer_new_def Let_def)


section \<open>Properties of the local queue and the sync coordinator\<close>

text \<open>
  C5. When the stored record holds race A and \<open>storeResult\<close> is called with a result of
  race B, B \<noteq> A, the whole record is replaced by a fresh one: afterwards the queue holds
  exactly the new result, and every entry of the record has the record's raceId. Nothing
  else of the storage object changes.
\<close>

theorem storeResult_other_race:
  assumes "stored st = Some d" and "data_raceId d \<noteq> raceId r"
  shows "storeResult st r = st\<lparr>stored := Some \<lparr>data_raceId = raceId r, data_results = [r]\<rparr>\<rparr> \<and>
         (\<forall>d'. stored (storeResult st r) = Some d' \<longrightarrow>
            data_results d' = [r] \<and> (\<forall>x \<in> set (data_results d'). raceId x = data_raceId d'))"
  using assms by (simp add: storeResult_def storeRaceData_def getStoredData_def Let_def)

theorem storeResult_other_race_witness:
  "stored example_storage = Some \<lparr>data_raceId = 1, data_results =
       [\<lparr>raceId = 1, runnerNumber = 101, finishTime = 126000\<rparr>,
        \<lparr>raceId = 1, runnerNumber = 102, finishTime = 99000\<rparr>]\<rparr> \<and>
   (1::int) \<noteq> raceId \<lparr>raceId = 2, runnerNumber = 7, finishTime = 9000\<rparr> \<and>
   stored (storeResult example_storage \<lparr>raceId = 2, runnerNumber = 7, finishTime = 9000\<rparr>)
     = Some \<lparr>data_raceId = 2, data_results = [\<lparr>raceId = 2, runnerNumber = 7, finishTime = 9000\<rparr>]\<rparr>"
  using storeResult_other_race [of example_storage
     "\<lparr>data_raceId = 1, data_results =
       [\<lparr>raceId = 1, runnerNumber = 101, finishTime = 126000\<rparr>,
        \<lparr>raceId = 1, runnerNumber = 102, finishTime = 99000\<rparr>]\<rparr>"
     "\<lparr>raceId = 2, runnerNumber = 7, finishTime = 9000\<rparr>"]
  by (simp add: example_storage_def)

text \<open>
  C7. The preconditions of \<open>syncResults()\<close>. Offline, the call fails: it returns
  \<open>false\<close> with the notification "Cannot sync while offline" (the spec's OfflineError)
  and issues no request. Online with nothing queued, it fails with the notification
  "No data to synchronize" (the spec's EmptyBatchError) and does nothing. The
  connection is looked at first, so the second case is that of a device that is
  online. In both cases the whole round leaves the device and the remote store as
  they were, whatever the network would have done.
\<close>

theorem syncResults_preconditions:
  "(\<not> isOnline (client w) \<longrightarrow>
      syncResults_issue (client w) = Returned False ''Cannot sync while offline'' \<and>
      sync_round w net sw now = ((False, ''Cannot sync while offline''), w)) \<and>
   (isOnline (client w) \<and> \<not> checkUnsyncedData (client w) \<longrightarrow>
      syncResults_issue (client w) = Returned False ''No data to synchronize'' \<and>
      sync_round w net sw now = ((False, ''No data to synchronize''), w))"
  by (auto simp: syncResults_issue_def sync_round_def checkUnsyncedData_def split: option.splits)

theorem syncResults_preconditions_witness:
  "\<not> isOnline (example_storage\<lparr>isOnline := False\<rparr>) \<and>
   sync_round \<lparr>client = example_storage\<lparr>isOnline := False\<rparr>, server = example_db\<rparr> Delivered True 130000 =
     ((False, ''Cannot sync while offline''),
      \<lparr>client = example_storage\<lparr>isOnline := False\<rparr>, server = example_db\<rparr>) \<and>
   isOnline (clearResults example_storage) \<and> \<not> checkUnsyncedData (clearResults example_storage) \<and>
   sync_round \<lparr>client = clearResults example_storage, server = example_db\<rparr> Delivered True 130000 =
     ((False, ''No data to synchronize''),
      \<lparr>client = clearResults example_storage, server = example_db\<rparr>)"
  using syncResults_preconditions [of
      "\<lparr>client = example_storage\<lparr>isOnline := False\<rparr>, server = example_db\<rparr>" Delivered True 130000]
    syncResults_preconditions [of
      "\<lparr>client = clearResults example_storage, server = example_db\<rparr>" Delivered True 130000]
  by (simp add: example_storage_def clearResults_def checkUnsyncedData_def getStoredData_def)

text \<open>
  C4, as the claim states it, fails: \<open>syncResults\<close> keeps no record of an upload in
  flight. Called twice on a device that is online with two results queued, before
  either \<open>fetch\<close> settles, it leaves two uploads in flight that carry the same batch.
\<close>

theorem double_upload_counterexample:
  "in_flight (fst (call_syncResults (fst (call_syncResults
       \<lparr>storage = example_storage, in_flight = []\<rparr>)))) =
     [\<lparr>up_raceId = 1, up_results =
         [\<lparr>raceId = 1, runnerNumber = 101, finishTime = 126000\<rparr>,
          \<lparr>raceId = 1, runnerNumber = 102, finishTime = 99000\<rparr>],
        up_deviceId = ''device_a''\<rparr>,
      \<lparr>up_raceId = 1, up_results =
         [\<lparr>raceId = 1, runnerNumber = 101, finishTime = 126000\<rparr>,
          \<lparr>raceId = 1, runnerNumber = 102, finishTime = 99000\<rparr>],
        up_deviceId = ''device_a''\<rparr>]"
  by (simp add: call_syncResults_def syncResults_issue_def getStoredData_def example_storage_def)

text \<open>
  C4, amended. \<open>syncResults()\<close> has no re-entrancy guard: on a device that is online
  with a non-empty queue, a call issues an upload of the whole queued batch whatever
  uploads are already in flight, and leaves the queue as it is until a response
  arrives.
\<close>

theorem call_syncResults_no_guard:
  assumes "isOnline (storage p)" and "stored (storage p) = Some d" and "data_results d \<noteq> []"
  shows "call_syncResults p =
           (p\<lparr>in_flight := in_flight p @
                [\<lparr>up_raceId = data_raceId d, up_results = data_results d,
                  up_deviceId = deviceId (storage p)\<rparr>]\<rparr>, None)"
  using assms by (simp add: call_syncResults_def syncResults_issue_def getStoredData_def)

theorem call_syncResults_no_guard_witness:
  "isOnline example_storage \<and>
   call_syncResults \<lparr>storage = example_storage, in_flight =
       [\<lparr>up_raceId = 1, up_results = [\<lparr>raceId = 1, runnerNumber = 101, finishTime = 126000\<rparr>],
         up_deviceId = ''device_a''\<rparr>]\<rparr> =
     (\<lparr>storage = example_storage, in_flight =
       [\<lparr>up_raceId = 1, up_results = [\<lparr>raceId = 1, runnerNumber = 101, finishTime = 126000\<rparr>],
         up_deviceId = ''device_a''\<rparr>,
        \<lparr>up_raceId = 1, up_results =
           [\<lparr>raceId = 1, runnerNumber = 101, finishTime = 126000\<rparr>,
            \<lparr>raceId = 1, runnerNumber = 102, finishTime = 99000\<rparr>],
         up_deviceId = ''device_a''\<rparr>]\<rparr>, None)"
  using call_syncResults_no_guard [of
     "\<lparr>storage = example_storage, in_flight =
       [\<lparr>up_raceId = 1, up_results = [\<lparr>raceId = 1, runnerNumber = 101, finishTime = 126000\<rparr>],
         up_deviceId = ''device_a''\<rparr>]\<rparr>"
     "\<lparr>data_raceId = 1, data_results =
        [\<lparr>raceId = 1, runnerNumber = 101, finishTime = 126000\<rparr>,
         \<lparr>raceId = 1, runnerNumber = 102, finishTime = 99000\<rparr>]\<rparr>"]
  by (simp add: example_storage_def)


section \<open>Properties of the cache manager\<close>

lemma activate_filter:
  "foldl (\<lambda>acc n. caches_delete n acc) cs ns = filter (\<lambda>(m, c). m \<notin> set ns) cs"
  by (induction ns arbitrary: cs) (auto simp: caches_delete_def case_prod_unfold intro: filter_cong)

lemma activate_eq: "activate cs = filter (\<lambda>(n, c). n = CACHE_NAME) cs"
  unfolding activate_def activate_filter caches_keys_def
  by (rule filter_cong) force+

lemma caches_match_Some:
  "caches_match cs req = Some r \<Longrightarrow> \<exists>n c. (n, c) \<in> set cs \<and> cache_match c req = Some r"
  by (induction cs req rule: caches_match.induct) (auto split: option.splits)

text \<open>
  C8. An intercepted request of the page's own origin whose URL contains \<open>/api/\<close> and
  whose network attempt fails: for \<open>GET\<close> the answer is what \<open>caches.match\<close> finds
  for the request, an entry some cache holds under the request's URL, or nothing; for
  \<open>POST\<close>, \<open>PUT\<close> and \<open>DELETE\<close> the answer is a synthesized response of status 503
  whose body is the JSON text of \<open>{error: ..., offline: true}\<close>. The caches are not
  written.
\<close>

theorem api_network_failure:
  assumes "startsWith (url req) origin" and "includes_sub (url req) ''/api/''" and "net req = None"
  shows "(http_method req = ''GET'' \<longrightarrow>
            fetch_handler origin net cs req = (Respond (caches_match cs req), cs) \<and>
            (\<forall>r. caches_match cs req = Some r \<longrightarrow>
               (\<exists>n c. (n, c) \<in> set cs \<and> map_of c (url req) = Some r))) \<and>
         (http_method req \<in> {''POST'', ''PUT'', ''DELETE''} \<longrightarrow>
            fetch_handler origin net cs req = (Respond (Some offline_response), cs) \<and>
            500 \<le> status offline_response \<and> status offline_response \<le> 599 \<and>
            body offline_response =
              JSON_stringify [(''error'', JString ''You are currently offline''),
                              (''offline'', JBool True)])"
proof -
  have "\<exists>n c. (n, c) \<in> set cs \<and> map_of c (url req) = Some r"
    if "caches_match cs req = Some r" for r
    using caches_match_Some [OF that] by (auto simp: cache_match_def split: if_splits)
  then show ?thesis
    using assms by (auto simp: fetch_handler_def offline_response_def)
qed

theorem api_network_failure_witness:
  "startsWith ''https://race.example/api/races/1/results'' ''https://race.example'' \<and>
   includes_sub ''https://race.example/api/races/1/results'' ''/api/'' \<and>
   fetch_handler ''https://race.example'' (\<lambda>r. None) []
       \<lparr>url = ''https://race.example/api/races/1/results'', http_method = ''GET''\<rparr> =
     (Respond None, []) \<and>
   fetch_handler ''https://race.example'' (\<lambda>r. None) []
       \<lparr>url = ''https://race.example/api/races/1/results'', http_method = ''POST''\<rparr> =
     (Respond (Some offline_response), []) \<and>
   status offline_response = 503"
proof -
  have a: "startsWith ''https://race.example/api/races/1/results'' ''https://race.example''"
    by (simp add: startsWith_def)
  have b: "includes_sub ''https://race.example/api/races/1/results'' ''/api/''"
    by (simp add: includes_sub_def sublist_code)
  from api_network_failure [of "\<lparr>url = ''https://race.example/api/races/1/results'', http_method = ''GET''\<rparr>"
      "''https://race.example''" "\<lambda>r. None" "[]"]
    api_network_failure [of "\<lparr>url = ''https://race.example/api/races/1/results'', http_method = ''POST''\<rparr>"
      "''https://race.example''" "\<lambda>r. None" "[]"]
    a b
  show ?thesis by (simp add: offline_response_def)
qed

text \<open>
  C9. Activation deletes every cache whose name is not the current \<open>CACHE_NAME\<close>, each
  as a whole, and keeps the current one as it is: afterwards every cache left bears
  the current name, and whatever \<open>caches.match\<close> finds is an entry of a cache of the
  current name, so that no entry of another generation can be retrieved.
\<close>

theorem activate_deletes_other_versions:
  "activate cs = filter (\<lambda>(n, c). n = CACHE_NAME) cs \<and>
   (\<forall>(n, c) \<in> set (activate cs). n = CACHE_NAME) \<and>
   (caches_match (activate cs) req = Some r \<longrightarrow>
      (\<exists>c. (CACHE_NAME, c) \<in> set cs \<and> cache_match c req = Some r))"
proof -
  have "\<exists>c. (CACHE_NAME, c) \<in> set cs \<and> cache_match c req = Some r"
    if "caches_match (activate cs) req = Some r"
    using caches_match_Some [OF that] by (auto simp: activate_eq)
  then show ?thesis by (auto simp: activate_eq)
qed

theorem activate_deletes_other_versions_witness:
  "activate [(''race-control-v0'', [(''/'', \<lparr>status = 200, resp_type = ''basic'', headers = [], body = ''old''\<rparr>)]),
             (CACHE_NAME, [(''/app.js'', \<lparr>status = 200, resp_type = ''basic'', headers = [], body = ''new''\<rparr>)])]
     = [(CACHE_NAME, [(''/app.js'', \<lparr>status = 200, resp_type = ''basic'', headers = [], body = ''new''\<rparr>)])] \<and>
   caches_match
     [(''race-control-v0'', [(''/'', \<lparr>status = 200, resp_type = ''basic'', headers = [], body = ''old''\<rparr>)]),
      (CACHE_NAME, [(''/app.js'', \<lparr>status = 200, resp_type = ''basic'', headers = [], body = ''new''\<rparr>)])]
     \<lparr>url = ''/'', http_method = ''GET''\<rparr>
     = Some \<lparr>status = 200, resp_type = ''basic'', headers = [], body = ''old''\<rparr> \<and>
   caches_match (activate
     [(''race-control-v0'', [(''/'', \<lparr>status = 200, resp_type = ''basic'', headers = [], body = ''old''\<rparr>)]),
      (CACHE_NAME, [(''/app.js'', \<lparr>status = 200, resp_type = ''basic'', headers = [], body = ''new''\<rparr>)])])
     \<lparr>url = ''/'', http_method = ''GET''\<rparr> = None \<and>
   caches_match (activate
     [(''race-control-v0'', [(''/'', \<lparr>status = 200, resp_type = ''basic'', headers = [], body = ''old''\<rparr>)]),
      (CACHE_NAME, [(''/app.js'', \<lparr>status = 200, resp_type = ''basic'', headers = [], body = ''new''\<rparr>)])])
     \<lparr>url = ''/app.js'', http_method = ''GET''\<rparr>
     = Some \<lparr>status = 200, resp_type = ''basic'', headers = [], body = ''new''\<rparr>"
  using activate_deletes_other_versions [of
     "[(''race-control-v0'', [(''/'', \<lparr>status = 200, resp_type = ''basic'', headers = [], body = ''old''\<rparr>)]),
       (CACHE_NAME, [(''/app.js'', \<lparr>status = 200, resp_type = ''basic'', headers = [], body = ''new''\<rparr>)])]"
     "\<lparr>url = ''/app.js'', http_method = ''GET''\<rparr>"
     "\<lparr>status = 200, resp_type = ''basic'', headers = [], body = ''new''\<rparr>"]
  by (simp add: CACHE_NAME_def cache_match_def)


section \<open>Properties of the remote store\<close>

lemma advances_refl: "advances r r"
  by (simp add: advances_def)

lemma advances_trans: "advances a b \<Longrightarrow> advances b c \<Longrightarrow> advances a c"
  unfolding advances_def
  by (cases "races_status a"; cases "races_status b"; cases "races_status c") auto

lemma list_all2_map_self:
  "(\<And>x. x \<in> set xs \<Longrightarrow> P x (f x)) \<Longrightarrow> list_all2 P xs (map f xs)"
  by (induction xs) auto

lemma rank_le_2: "rank s \<le> 2"
  by (cases s) auto

lemma handle_advances:
  "start_in_order db q \<Longrightarrow> list_all2 advances (races (cur db)) (races (cur (handle db q)))"
proof (cases q)
  case (Start i now)
  assume "start_in_order db q"
  with Start have p: "\<And>r. r \<in> set (races (cur db)) \<Longrightarrow> races_id r = i \<Longrightarrow> races_status r = Pending"
    by (auto simp: list_all_iff)
  show ?thesis
    unfolding Start handle.simps put_start_def sql_update_races_def
    by (simp, rule list_all2_map_self) (auto simp: advances_def dest: p)
next
  case (End i)
  show ?thesis
    unfolding End handle.simps put_end_def sql_update_races_def
    by (simp, rule list_all2_map_self) (auto simp: advances_def rank_le_2)
qed

text \<open>
  C1, as the claim states it, fails: neither handler looks at the status the race has.
  After \<open>/start\<close> at 1000 and \<open>/end\<close>, the race is completed with startTime 1000; a
  second \<open>/start\<close> at 2000 is answered 200 and leaves it active with startTime 2000:
  the status has gone back and the startTime has been assigned again.
\<close>

theorem restart_counterexample:
  "races (cur (run example_db [Start 1 1000, End 1])) =
     [\<lparr>races_id = 1, races_name = ''5K Fun Run'', races_date = ''2024-05-01'',
       races_startTime = Some 1000, races_status = Completed\<rparr>] \<and>
   put_start (run example_db [Start 1 1000, End 1]) 1 2000 =
     (Reply 200 (Started 1 2000 Active), run example_db [Start 1 1000, End 1, Start 1 2000]) \<and>
   races (cur (run example_db [Start 1 1000, End 1, Start 1 2000])) =
     [\<lparr>races_id = 1, races_name = ''5K Fun Run'', races_date = ''2024-05-01'',
       races_startTime = Some 2000, races_status = Active\<rparr>]"
  by (simp add: db_defs)

text \<open>
  C1, amended. For every sequence of \<open>/start\<close> and \<open>/end\<close> requests in which each
  \<open>/start\<close> names a race that is still pending when it arrives, every race's status
  only moves forward along pending, active, completed, and its startTime changes at
  most once, on leaving pending; after that no request of the sequence assigns it
  again. The server does not enforce that order itself.
\<close>

theorem lifecycle_in_order:
  "in_order db qs \<Longrightarrow> list_all2 advances (races (cur db)) (races (cur (run db qs)))"
proof (induction qs arbitrary: db)
  case Nil
  show ?case by (simp add: list_all2_refl advances_refl)
next
  case (Cons q qs)
  from Cons.prems have a: "start_in_order db q" and b: "in_order (handle db q) qs" by simp_all
  have "list_all2 advances (races (cur db)) (races (cur (handle db q)))"
    using a by (rule handle_advances)
  moreover have "list_all2 advances (races (cur (handle db q))) (races (cur (run (handle db q) qs)))"
    using b by (rule Cons.IH)
  ultimately show ?case
    using list_all2_trans [of advances advances advances] advances_trans by fastforce
qed

theorem lifecycle_in_order_witness:
  "in_order example_db [Start 1 1000, End 1] \<and>
   list_all2 advances (races (cur example_db)) (races (cur (run example_db [Start 1 1000, End 1]))) \<and>
   races (cur (run example_db [Start 1 1000, End 1])) =
     [\<lparr>races_id = 1, races_name = ''5K Fun Run'', races_date = ''2024-05-01'',
       races_startTime = Some 1000, races_status = Completed\<rparr>]"
proof -
  have h: "in_order example_db [Start 1 1000, End 1]"
    by (simp add: db_defs)
  from lifecycle_in_order [OF h] h show ?thesis
    by (simp add: db_defs)
qed

text \<open>
  C2 at a batch whose first entry is complete and whose second entry has no
  \<open>runnerNumber\<close>: the reply is 400, and the row of the first entry has been inserted
  inside a transaction that is neither committed nor rolled back. A reader of the
  race's results saw no row before the request and sees that row after it.
\<close>

theorem post_results_partial_batch:
  "post_results example_db 1 partial_batch 7000 =
     (Reply 400 (Error ''Runner number and finish time are required for each result''),
      \<lparr>cur = (cur example_db)
         \<lparr>results := [\<lparr>results_id = 1, results_raceId = 1, results_runnerNumber = 101,
                        results_finishTime = 5000, results_uploadedBy = Some ''device_a'',
                        results_uploadedAt = 7000\<rparr>],
          results_seq := 1\<rparr>,
       saved = Some (cur example_db)\<rparr>) \<and>
   get_results example_db 1 = Reply 200 (Rows []) \<and>
   get_results (snd (post_results example_db 1 partial_batch 7000)) 1 =
     Reply 200 (Rows [\<lparr>out_id = 1, out_runnerNumber = 101, out_finishTime = 5000,
                        out_raceTime = None, out_uploadedBy = Some ''device_a'',
                        out_uploadedAt = 7000\<rparr>])"
  by (simp add: db_defs partial_batch_def)

lemma sort_key_Nil_iff: "sort_key f xs = [] \<longleftrightarrow> xs = []"
  by (metis length_sort length_0_conv)

text \<open>
  C10, as the claim states it, fails: the handler that stores results does not look at
  \<open>races\<close>, so results can be stored for an id that has no race, and they are
  returned. After one result is posted for race 7 to an empty store, \<open>races\<close> is
  still empty and the results of race 7 are a list of one row.
\<close>

theorem orphan_results_counterexample:
  "races (cur (snd (post_results empty_db 7 single_batch 6000))) = [] \<and>
   get_results (snd (post_results empty_db 7 single_batch 6000)) 7 =
     Reply 200 (Rows [\<lparr>out_id = 1, out_runnerNumber = 101, out_finishTime = 5000,
                        out_raceTime = None, out_uploadedBy = Some ''device_a'',
                        out_uploadedAt = 6000\<rparr>])"
  by (simp add: db_defs single_batch_def)

text \<open>
  C10, amended. \<open>GET /api/races/:id/results\<close> always answers 200, never 404. For an id
  with no row in \<open>races\<close> the list has one row for each stored result of that id, by
  ascending finishTime, each with raceTime null; it is empty exactly when no result
  is stored for the id. More generally raceTime is null in every row whenever the
  race's startTime is unset.
\<close>

theorem get_results_without_race:
  "reply_code (get_results db i) = 200 \<and>
   (filter (\<lambda>r. races_id r = i) (races (cur db)) = [] \<longrightarrow>
      (\<forall>p \<in> set (get_results_rows db i). out_raceTime p = None) \<and>
      map out_id (get_results_rows db i) =
        map results_id (sort_key results_finishTime
          (filter (\<lambda>r. results_raceId r = i) (results (cur db)))) \<and>
      (get_results_rows db i = [] \<longleftrightarrow>
         filter (\<lambda>r. results_raceId r = i) (results (cur db)) = [])) \<and>
   (\<not> truthy (raceStartTime db i) \<longrightarrow>
      (\<forall>p \<in> set (get_results_rows db i). out_raceTime p = None))"
  by (auto simp: get_results_def get_results_rows_def raceStartTime_def processRow_def
        sort_key_Nil_iff comp_def)

theorem get_results_without_race_witness:
  "filter (\<lambda>r. races_id r = 7) (races (cur (snd (post_results empty_db 7 single_batch 6000)))) = [] \<and>
   map out_raceTime (get_results_rows (snd (post_results empty_db 7 single_batch 6000)) 7) = [None] \<and>
   \<not> truthy (raceStartTime (snd (post_results example_db 1 single_batch 6000)) 1) \<and>
   map out_raceTime (get_results_rows (snd (post_results example_db 1 single_batch 6000)) 1) = [None]"
  using get_results_without_race [of "snd (post_results empty_db 7 single_batch 6000)" 7]
    get_results_without_race [of "snd (post_results example_db 1 single_batch 6000)" 1]
  by (simp add: db_defs single_batch_def)


section \<open>Properties of a whole synchronization\<close>

lemma insert_each_ok:
  "insert_each i dev at es db = (False, db') \<Longrightarrow>
     saved db' = saved db \<and> races (cur db') = races (cur db) \<and>
     (\<exists>added. results (cur db') = results (cur db) @ added \<and>
        map sent added = map (\<lambda>e. (i, the (entry_runnerNumber e), the (entry_finishTime e), dev)) es)"
proof (induction es arbitrary: db)
  case Nil
  then show ?case by simp
next
  case (Cons e es)
  let ?db1 = "sql_insert_result i (the (entry_runnerNumber e)) (the (entry_finishTime e)) dev at db"
  from Cons.prems have rest: "insert_each i dev at es ?db1 = (False, db')"
    by (simp split: if_splits)
  from Cons.IH [OF rest] obtain added where
    s: "saved db' = saved ?db1" and r: "races (cur db') = races (cur ?db1)" and
    a: "results (cur db') = results (cur ?db1) @ added" and
    m: "map sent added = map (\<lambda>e. (i, the (entry_runnerNumber e), the (entry_finishTime e), dev)) es"
    by blast
  obtain row where row: "results (cur ?db1) = results (cur db) @ [row]"
      "sent row = (i, the (entry_runnerNumber e), the (entry_finishTime e), dev)"
    by (simp add: sql_insert_result_def Let_def sent_def)
  have "results (cur db') = results (cur db) @ (row # added)"
    using a row(1) by simp
  moreover have "map sent (row # added) =
      map (\<lambda>e. (i, the (entry_runnerNumber e), the (entry_finishTime e), dev)) (e # es)"
    using m row(2) by simp
  moreover have "saved db' = saved db" "races (cur db') = races (cur db)"
    using s r by (simp_all add: sql_insert_result_def Let_def)
  ultimately show ?case by blast
qed

lemma post_results_ok:
  assumes "saved db = None" and "post_results db i b now = (rep, db')"
    and "response_ok (reply_code rep)"
  shows "saved db' = None \<and> races (cur db') = races (cur db) \<and>
     (\<exists>es added. body_results b = Array es \<and> results (cur db') = results (cur db) @ added \<and>
        map sent added =
          map (\<lambda>e. (i, the (entry_runnerNumber e), the (entry_finishTime e), body_deviceId b)) es)"
proof (cases "body_results b")
  case Missing
  with assms show ?thesis by (auto simp: post_results_def response_ok_def)
next
  case NotArray
  with assms show ?thesis by (auto simp: post_results_def response_ok_def)
next
  case (Array es)
  obtain h db1 where ie: "insert_each i (body_deviceId b) now es (snd (sql_begin db)) = (h, db1)"
    by (cases "insert_each i (body_deviceId b) now es (snd (sql_begin db))")
  have h: "\<not> h"
    using assms Array ie by (auto simp: post_results_def response_ok_def)
  from insert_each_ok [of i "body_deviceId b" now es "snd (sql_begin db)" db1] ie h
  obtain added where
    s: "saved db1 = saved (snd (sql_begin db))" and
    r: "races (cur db1) = races (cur (snd (sql_begin db)))" and
    a: "results (cur db1) = results (cur (snd (sql_begin db))) @ added" and
    m: "map sent added =
          map (\<lambda>e. (i, the (entry_runnerNumber e), the (entry_finishTime e), body_deviceId b)) es"
    by auto
  have b: "cur (snd (sql_begin db)) = cur db" "saved (snd (sql_begin db)) = Some (cur db)"
    using assms(1) by (simp_all add: sql_begin_def)
  have "db' = db1\<lparr>saved := None\<rparr>"
    using assms(2) Array ie h s b by (simp add: post_results_def sql_commit_def)
  then show ?thesis using Array r a m b by auto
qed

text \<open>
  C3. One call of \<open>syncResults()\<close>, from any state of the queue, against a remote
  store whose connection has no transaction open when the request arrives, whatever
  the network does. If the call fails (a precondition, a rejected \<open>fetch\<close>, a status
  that is not a success) the storage object, and with it the persisted queue, is what
  it was before the call. If the call succeeds the queue is gone, and the rows of the
  remote store are the rows it had followed by one row for each queued result, in the
  order of the queue, with the queue's race, the result's runner and finish time and
  this device's id: none twice, none left out.
\<close>

theorem sync_round_atomic:
  assumes "saved (server w) = None" and "sync_round w net sw now = ((ok, msg), w')"
  shows "(\<not> ok \<longrightarrow> client w' = client w) \<and>
         (ok \<longrightarrow> stored (client w') = None \<and>
            (\<exists>d added. stored (client w) = Some d \<and>
               results (cur (server w')) = results (cur (server w)) @ added \<and>
               map sent added =
                 map (\<lambda>r. (data_raceId d, runnerNumber r, finishTime r, Some (deviceId (client w))))
                   (data_results d)))"
proof (cases "syncResults_issue (client w)")
  case (Returned b m)
  then have "\<not> b"
    by (auto simp: syncResults_issue_def split: if_splits option.splits)
  with Returned assms(2) show ?thesis by (auto simp: sync_round_def)
next
  case (InFlight u)
  then obtain d where d: "stored (client w) = Some d" and
    u: "u = \<lparr>up_raceId = data_raceId d, up_results = data_results d,
             up_deviceId = deviceId (client w)\<rparr>"
    by (auto simp: syncResults_issue_def getStoredData_def split: if_splits option.splits)
  have fail: "syncResults_resume (client w) (seen_on_failure sw) =
      ((False, ''Failed to synchronize results''), client w)"
    by (simp add: syncResults_resume_def seen_on_failure_def offline_response_def response_ok_def)
  show ?thesis
  proof (cases net)
    case Request_lost
    with InFlight assms(2) fail show ?thesis by (auto simp: sync_round_def)
  next
    case Response_lost
    with InFlight assms(2) fail show ?thesis
      by (auto simp: sync_round_def split: prod.splits)
  next
    case Delivered
    obtain rep db' where p: "post_results (server w) (up_raceId u) (upload_body u) now = (rep, db')"
      by (cases "post_results (server w) (up_raceId u) (upload_body u) now")
    show ?thesis
    proof (cases "response_ok (reply_code rep)")
      case False
      with Delivered InFlight assms(2) p show ?thesis
        by (auto simp: sync_round_def syncResults_resume_def)
    next
      case True
      from post_results_ok [OF assms(1) p True] obtain es added where
        e: "body_results (upload_body u) = Array es" and
        a: "results (cur db') = results (cur (server w)) @ added" and
        m: "map sent added = map (\<lambda>e. (up_raceId u, the (entry_runnerNumber e),
              the (entry_finishTime e), body_deviceId (upload_body u))) es"
        by blast
      have m': "map sent added =
          map (\<lambda>r. (data_raceId d, runnerNumber r, finishTime r, Some (deviceId (client w))))
            (data_results d)"
        using e m u by (auto simp: upload_body_def comp_def)
      have "ok" "w' = \<lparr>client = clearResults (client w), server = db'\<rparr>"
        using Delivered InFlight assms(2) p True
        by (auto simp: sync_round_def syncResults_resume_def)
      then show ?thesis using d a m' by (auto simp: clearResults_def)
    qed
  qed
qed

theorem sync_round_atomic_witness:
  "saved (server \<lparr>client = example_storage, server = example_db\<rparr>) = None \<and>
   sync_round \<lparr>client = example_storage, server = example_db\<rparr> Delivered True 130000 =
     ((True, ''Results synchronized successfully''),
      \<lparr>client = clearResults example_storage,
       server = \<lparr>cur = (cur example_db)
         \<lparr>results :=
            [\<lparr>results_id = 1, results_raceId = 1, results_runnerNumber = 101,
              results_finishTime = 126000, results_uploadedBy = Some ''device_a'',
              results_uploadedAt = 130000\<rparr>,
             \<lparr>results_id = 2, results_raceId = 1, results_runnerNumber = 102,
              results_finishTime = 99000, results_uploadedBy = Some ''device_a'',
              results_uploadedAt = 130000\<rparr>],
          results_seq := 2\<rparr>, saved = None\<rparr>\<rparr>) \<and>
   stored (clearResults example_storage) = None"
proof -
  let ?w = "\<lparr>client = example_storage, server = example_db\<rparr>"
  let ?w' = "\<lparr>client = clearResults example_storage,
       server = \<lparr>cur = (cur example_db)
         \<lparr>results :=
            [\<lparr>results_id = 1, results_raceId = 1, results_runnerNumber = 101,
              results_finishTime = 126000, results_uploadedBy = Some ''device_a'',
              results_uploadedAt = 130000\<rparr>,
             \<lparr>results_id = 2, results_raceId = 1, results_runnerNumber = 102,
              results_finishTime = 99000, results_uploadedBy = Some ''device_a'',
              results_uploadedAt = 130000\<rparr>],
          results_seq := 2\<rparr>, saved = None\<rparr>\<rparr>"
  have h: "saved (server ?w) = None"
    by (simp add: db_defs)
  have e: "sync_round ?w Delivered True 130000 =
      ((True, ''Results synchronized successfully''), ?w')"
    by (simp add: sync_round_def syncResults_issue_def syncResults_resume_def getStoredData_def
          example_storage_def upload_body_def response_ok_def db_defs)
  have "stored (client ?w') = None"
    using sync_round_atomic [OF h e] by blast
  then show ?thesis using h e by simp
qed

end
